theory Spec2Isabelle
  imports Complex_Main
begin

section \<open>The health endpoints of the AI service\<close>

text \<open>
  The model follows \<^verbatim>\<open>services/ai-service/app/routes/health.py\<close> and the
  router registration of \<^verbatim>\<open>services/ai-service/app/main.py\<close>. The two
  handlers read the host (psutil), the clock and the process environment; each of these
  readings is a field of the record \<open>host\<close>, so a handler is a function of the host
  it runs on. A call that may raise returns a sum: \<open>Inl\<close> carries the exception.
\<close>

subsection \<open>Python values\<close>

text \<open>
  The handlers return dict literals whose values are strings, a float, an int and nested
  dicts. A dict keeps the order of its literal; its keys are looked up with \<open>lookup\<close>.
  The handlers copy the two float readings and never compute with them, so a float is a
  real number here.
\<close>

datatype pyval =
    PStr string
  | PFloat real
  | PInt int
  | PDict "(string \<times> pyval) list"

fun lookup :: "pyval \<Rightarrow> string \<Rightarrow> pyval option" where
  "lookup (PDict kvs) k = map_of kvs k"
| "lookup (PStr s) k = None"
| "lookup (PFloat x) k = None"
| "lookup (PInt i) k = None"

fun keys :: "pyval \<Rightarrow> string list" where
  "keys (PDict kvs) = map fst kvs"
| "keys (PStr s) = []"
| "keys (PFloat x) = []"
| "keys (PInt i) = []"

text \<open>
  An instance of Python's \<^verbatim>\<open>Exception\<close>, which is what the clause
  \<^verbatim>\<open>except Exception as e\<close> binds: its class name and the text that
  \<^verbatim>\<open>str(e)\<close> yields. An exception raised without arguments, such as
  \<^verbatim>\<open>RuntimeError()\<close>, has the empty text. The failures of psutil
  (\<^verbatim>\<open>psutil.Error\<close>, \<^verbatim>\<open>OSError\<close>, \<^verbatim>\<open>RuntimeError\<close>,
  \<^verbatim>\<open>NotImplementedError\<close>) are all of this class. The interpreter's exits
  and interrupts (\<^verbatim>\<open>SystemExit\<close>, \<^verbatim>\<open>KeyboardInterrupt\<close>), which derive
  from \<^verbatim>\<open>BaseException\<close> only and which the clause lets pass, are not errors of
  a reading and are not modelled.
\<close>

datatype exn = Exception (exn_class: string) (exn_text: string)

definition str :: "exn \<Rightarrow> string" where
  "str e = exn_text e"

subsection \<open>What a handler reads\<close>

text \<open>
  \<open>svmem\<close> is the named tuple of \<^verbatim>\<open>psutil.virtual_memory()\<close>, with the two
  fields the handler reads.
\<close>

record svmem =
  percent :: real
  available :: int

record host =
  virtual_memory :: "exn + svmem"
  cpu_percent :: "exn + real"
  utcnow_isoformat :: string
  environ :: "string \<Rightarrow> string option"

text \<open>\<^verbatim>\<open>os.getenv(key, default)\<close>: the default only when the variable is unset.\<close>

definition getenv :: "host \<Rightarrow> string \<Rightarrow> string \<Rightarrow> string" where
  "getenv w key dflt = (case environ w key of None \<Rightarrow> dflt | Some v \<Rightarrow> v)"

subsection \<open>The handlers\<close>

definition health_check :: "host \<Rightarrow> exn + pyval" where
  "health_check w =
     Inr (PDict
       [(''status'', PStr ''ok''),
        (''service'', PStr ''ai-service''),
        (''timestamp'', PStr (utcnow_isoformat w)),
        (''version'', PStr ''1.0.0'')])"

text \<open>
  The body of the \<^verbatim>\<open>try\<close> block of \<^verbatim>\<open>detailed_health\<close>: the memory
  reading first, then the CPU reading, then the report. An exception of either reading
  leaves the block at once.
\<close>

definition detailed_health_try :: "host \<Rightarrow> exn + pyval" where
  "detailed_health_try w =
     (case virtual_memory w of
        Inl e \<Rightarrow> Inl e
      | Inr memory \<Rightarrow>
          (case cpu_percent w of
             Inl e \<Rightarrow> Inl e
           | Inr cpu \<Rightarrow>
               Inr (PDict
                 [(''status'', PStr ''ok''),
                  (''service'', PStr ''ai-service''),
                  (''timestamp'', PStr (utcnow_isoformat w)),
                  (''version'', PStr ''1.0.0''),
                  (''system'', PDict
                     [(''cpu_percent'', PFloat cpu),
                      (''memory_percent'', PFloat (percent memory)),
                      (''memory_available'', PInt (available memory)),
                      (''environment'', PStr (getenv w ''NODE_ENV'' ''production''))]),
                  (''dependencies'', PDict
                     [(''tensorflow'', PStr ''ready''),
                      (''mongodb'', PStr ''connected''),
                      (''redis'', PStr ''connected'')])])))"

text \<open>The handler: the \<^verbatim>\<open>try\<close> block and its \<^verbatim>\<open>except Exception as e\<close> clause.\<close>

definition detailed_health :: "host \<Rightarrow> exn + pyval" where
  "detailed_health w =
     (case detailed_health_try w of
        Inr report \<Rightarrow> Inr report
      | Inl e \<Rightarrow>
          Inr (PDict
            [(''status'', PStr ''error''),
             (''error'', PStr (str e)),
             (''timestamp'', PStr (utcnow_isoformat w))]))"

text \<open>
  The exception that metrics collection raises, if it raises one: the memory reading is
  taken first, and the CPU reading only after it succeeded.
\<close>

definition metrics_error :: "host \<Rightarrow> exn option" where
  "metrics_error w =
     (case virtual_memory w of
        Inl e \<Rightarrow> Some e
      | Inr memory \<Rightarrow> (case cpu_percent w of Inl e \<Rightarrow> Some e | Inr cpu \<Rightarrow> None))"

subsection \<open>Reading a handler's result\<close>

text \<open>
  A field of the report a handler returned, and a field of the report's
  \<^verbatim>\<open>system\<close> block; \<open>None\<close> when the handler raised or the key is absent.
\<close>

definition report_field :: "exn + pyval \<Rightarrow> string \<Rightarrow> pyval option" where
  "report_field res k = (case res of Inl e \<Rightarrow> None | Inr r \<Rightarrow> lookup r k)"

definition system_field :: "exn + pyval \<Rightarrow> string \<Rightarrow> pyval option" where
  "system_field res k =
     (case report_field res ''system'' of
        Some sys \<Rightarrow> lookup sys k
      | None \<Rightarrow> None)"

definition is_str :: "pyval option \<Rightarrow> bool" where
  "is_str v = (case v of Some (PStr s) \<Rightarrow> True | _ \<Rightarrow> False)"

definition nonempty_str :: "pyval option \<Rightarrow> bool" where
  "nonempty_str v = (case v of Some (PStr s) \<Rightarrow> s \<noteq> [] | _ \<Rightarrow> False)"

definition nonempty_dict :: "pyval option \<Rightarrow> bool" where
  "nonempty_dict v = (case v of Some (PDict kvs) \<Rightarrow> kvs \<noteq> [] | _ \<Rightarrow> False)"

text \<open>A non-empty dict whose values are all non-empty strings: dependency names with their labels.\<close>

definition is_labels :: "pyval option \<Rightarrow> bool" where
  "is_labels v =
     (case v of
        Some (PDict kvs) \<Rightarrow> kvs \<noteq> [] \<and> list_all (\<lambda>kv. nonempty_str (Some (snd kv))) kvs
      | _ \<Rightarrow> False)"

subsection \<open>The specification's report\<close>

text \<open>
  \<open>spec_detailed_report\<close> is not taken from the code: it is the HealthReport of the
  specification's data model, in its detailed variant, with the field names the
  specification gives. With status \<^verbatim>\<open>ok\<close> the report has a service identifier, a
  timestamp, a version, a populated \<^verbatim>\<open>system\<close> block and a \<^verbatim>\<open>dependencies\<close>
  mapping from names to labels. With status \<^verbatim>\<open>error\<close> it has a string
  \<^verbatim>\<open>error_message\<close> and a timestamp. A value with any other status, or with none, is
  not a report.
\<close>

definition spec_detailed_report :: "pyval \<Rightarrow> bool" where
  "spec_detailed_report r =
     (if lookup r ''status'' = Some (PStr ''ok'') then
        nonempty_str (lookup r ''service'') \<and>
        nonempty_str (lookup r ''timestamp'') \<and>
        nonempty_str (lookup r ''version'') \<and>
        nonempty_dict (lookup r ''system'') \<and>
        is_labels (lookup r ''dependencies'')
      else if lookup r ''status'' = Some (PStr ''error'') then
        is_str (lookup r ''error_message'') \<and>
        nonempty_str (lookup r ''timestamp'')
      else False)"

subsection \<open>The routes\<close>

text \<open>
  \<^verbatim>\<open>main.py\<close> mounts the health router under \<^verbatim>\<open>/health\<close> and adds
  \<^verbatim>\<open>/hello\<close>. All three routes are registered with \<^verbatim>\<open>get\<close> and no status
  code of their own, so the framework answers with 200 and the returned value as the
  body when the handler returns, and with 500 when an exception leaves the handler.
  A request that matches none of the three routes is not answered by this code
  (\<open>None\<close>).
\<close>

record response =
  status_code :: nat
  content :: pyval

definition root :: "exn + pyval" where
  "root = Inr (PStr ''Hello from Warely AI-Service'')"

definition get_route :: "exn + pyval \<Rightarrow> response" where
  "get_route res =
     (case res of
        Inr v \<Rightarrow> \<lparr>status_code = 200, content = v\<rparr>
      | Inl e \<Rightarrow> \<lparr>status_code = 500, content = PStr ''Internal Server Error''\<rparr>)"

definition app :: "host \<Rightarrow> string \<Rightarrow> string \<Rightarrow> response option" where
  "app w method path =
     (if method = ''GET'' \<and> path = ''/health'' then Some (get_route (health_check w))
      else if method = ''GET'' \<and> path = ''/health/detailed''
        then Some (get_route (detailed_health w))
      else if method = ''GET'' \<and> path = ''/hello'' then Some (get_route root)
      else None)"

subsection \<open>Example hosts\<close>

text \<open>
  A host whose readings succeed and whose environment does not set
  \<^verbatim>\<open>NODE_ENV\<close>; the same host with \<^verbatim>\<open>NODE_ENV=staging\<close>; and hosts on which
  the memory reading or the CPU reading raises. On \<open>host_silent_fault\<close> the memory
  reading raises \<^verbatim>\<open>RuntimeError()\<close>, an exception without a message.
\<close>

definition host_ok :: host where
  "host_ok =
     \<lparr>virtual_memory = Inr \<lparr>percent = 37.5, available = 8589934592\<rparr>,
      cpu_percent = Inr 12.5,
      utcnow_isoformat = ''2024-05-17T09:30:00.000123'',
      environ = Map.empty\<rparr>"

definition host_staging :: host where
  "host_staging = host_ok\<lparr>environ := [''NODE_ENV'' \<mapsto> ''staging'']\<rparr>"

definition host_memory_fault :: host where
  "host_memory_fault =
     host_ok\<lparr>virtual_memory := Inl (Exception ''OSError'' ''[Errno 13] Permission denied'')\<rparr>"

definition host_cpu_fault :: host where
  "host_cpu_fault =
     host_ok\<lparr>cpu_percent := Inl (Exception ''RuntimeError'' ''host metrics unavailable'')\<rparr>"

definition host_silent_fault :: host where
  "host_silent_fault = host_ok\<lparr>virtual_memory := Inl (Exception ''RuntimeError'' [])\<rparr>"

section \<open>Properties\<close>

subsection \<open>Helper facts\<close>

lemma detailed_health_success:
  assumes "virtual_memory w = Inr m" and "cpu_percent w = Inr c"
  shows "detailed_health w =
     Inr (PDict
       [(''status'', PStr ''ok''),
        (''service'', PStr ''ai-service''),
        (''timestamp'', PStr (utcnow_isoformat w)),
        (''version'', PStr ''1.0.0''),
        (''system'', PDict
           [(''cpu_percent'', PFloat c),
            (''memory_percent'', PFloat (percent m)),
            (''memory_available'', PInt (available m)),
            (''environment'', PStr (getenv w ''NODE_ENV'' ''production''))]),
        (''dependencies'', PDict
           [(''tensorflow'', PStr ''ready''),
            (''mongodb'', PStr ''connected''),
            (''redis'', PStr ''connected'')])])"
  using assms by (simp add: detailed_health_def detailed_health_try_def)

lemma detailed_health_try_error:
  "metrics_error w = Some e \<longleftrightarrow> detailed_health_try w = Inl e"
  by (simp add: metrics_error_def detailed_health_try_def split: sum.splits)

lemma detailed_health_failure:
  assumes "metrics_error w = Some e"
  shows "detailed_health w =
     Inr (PDict
       [(''status'', PStr ''error''),
        (''error'', PStr (str e)),
        (''timestamp'', PStr (utcnow_isoformat w))])"
  using assms by (simp add: detailed_health_def detailed_health_try_error)

lemma metrics_error_None:
  "metrics_error w = None \<longleftrightarrow> (\<exists>m c. virtual_memory w = Inr m \<and> cpu_percent w = Inr c)"
  by (simp add: metrics_error_def split: sum.splits)

lemma host_ok_readings:
  "virtual_memory host_ok = Inr \<lparr>percent = 37.5, available = 8589934592\<rparr>"
  "cpu_percent host_ok = Inr 12.5"
  "utcnow_isoformat host_ok = ''2024-05-17T09:30:00.000123''"
  "environ host_ok = Map.empty"
  by (simp_all add: host_ok_def)

lemma host_staging_readings:
  "virtual_memory host_staging = Inr \<lparr>percent = 37.5, available = 8589934592\<rparr>"
  "cpu_percent host_staging = Inr 12.5"
  "utcnow_isoformat host_staging = ''2024-05-17T09:30:00.000123''"
  "environ host_staging = [''NODE_ENV'' \<mapsto> ''staging'']"
  by (simp_all add: host_staging_def host_ok_def)

lemma host_memory_fault_readings:
  "virtual_memory host_memory_fault =
     Inl (Exception ''OSError'' ''[Errno 13] Permission denied'')"
  "utcnow_isoformat host_memory_fault = ''2024-05-17T09:30:00.000123''"
  "metrics_error host_memory_fault =
     Some (Exception ''OSError'' ''[Errno 13] Permission denied'')"
  by (simp_all add: host_memory_fault_def host_ok_def metrics_error_def)

lemma host_cpu_fault_readings:
  "virtual_memory host_cpu_fault = Inr \<lparr>percent = 37.5, available = 8589934592\<rparr>"
  "cpu_percent host_cpu_fault = Inl (Exception ''RuntimeError'' ''host metrics unavailable'')"
  "utcnow_isoformat host_cpu_fault = ''2024-05-17T09:30:00.000123''"
  "environ host_cpu_fault = Map.empty"
  "metrics_error host_cpu_fault =
     Some (Exception ''RuntimeError'' ''host metrics unavailable'')"
  by (simp_all add: host_cpu_fault_def host_ok_def metrics_error_def)

lemma host_silent_fault_readings:
  "virtual_memory host_silent_fault = Inl (Exception ''RuntimeError'' [])"
  "utcnow_isoformat host_silent_fault = ''2024-05-17T09:30:00.000123''"
  "metrics_error host_silent_fault = Some (Exception ''RuntimeError'' [])"
  by (simp_all add: host_silent_fault_def host_ok_def metrics_error_def)

lemma detailed_health_cases:
  obtains (ok) m c where "virtual_memory w = Inr m" and "cpu_percent w = Inr c"
      and "metrics_error w = None"
    | (error) e where "metrics_error w = Some e"
proof (cases "metrics_error w")
  case None
  then obtain m c where vm: "virtual_memory w = Inr m" and cp: "cpu_percent w = Inr c"
    using metrics_error_None by blast
  from vm cp None show ?thesis by (rule ok)
next
  case (Some e)
  then show ?thesis by (rule error)
qed

subsection \<open>The basic handler\<close>

text \<open>
  C2. Every invocation of the basic handler returns, without raising, the report with
  status \<^verbatim>\<open>ok\<close>, service \<^verbatim>\<open>ai-service\<close>, version \<^verbatim>\<open>1.0.0\<close> and the
  timestamp read from the clock at this invocation; the service and the version are
  the same for any two invocations.
\<close>

theorem health_check_report:
  "health_check w =
     Inr (PDict
       [(''status'', PStr ''ok''),
        (''service'', PStr ''ai-service''),
        (''timestamp'', PStr (utcnow_isoformat w)),
        (''version'', PStr ''1.0.0'')]) \<and>
   report_field (health_check w) ''service'' = report_field (health_check w') ''service'' \<and>
   report_field (health_check w) ''version'' = report_field (health_check w') ''version''"
  by (simp add: health_check_def report_field_def)

theorem health_check_report_witness:
  "health_check host_ok =
     Inr (PDict
       [(''status'', PStr ''ok''),
        (''service'', PStr ''ai-service''),
        (''timestamp'', PStr ''2024-05-17T09:30:00.000123''),
        (''version'', PStr ''1.0.0'')]) \<and>
   report_field (health_check host_ok) ''service'' =
     report_field (health_check host_memory_fault) ''service''"
  using health_check_report [of host_ok host_memory_fault]
  by (simp add: host_ok_readings health_check_def report_field_def)

text \<open>
  C10. The basic handler reads nothing but the clock: two invocations on hosts that
  differ in their environment variables and in their metrics return the same report
  whenever their clock readings are equal.
\<close>

theorem health_check_clock_only:
  "utcnow_isoformat w = utcnow_isoformat w' \<Longrightarrow> health_check w = health_check w'"
  by (simp add: health_check_def)

theorem health_check_clock_only_witness:
  "utcnow_isoformat host_staging = utcnow_isoformat host_cpu_fault \<and>
   environ host_staging ''NODE_ENV'' = Some ''staging'' \<and>
   environ host_cpu_fault ''NODE_ENV'' = None \<and>
   cpu_percent host_staging = Inr 12.5 \<and>
   cpu_percent host_cpu_fault = Inl (Exception ''RuntimeError'' ''host metrics unavailable'') \<and>
   health_check host_staging = health_check host_cpu_fault"
proof -
  have clock: "utcnow_isoformat host_staging = utcnow_isoformat host_cpu_fault"
    by (simp add: host_staging_readings host_cpu_fault_readings)
  from health_check_clock_only [OF clock] clock show ?thesis
    by (simp add: host_staging_readings host_cpu_fault_readings)
qed

subsection \<open>The detailed handler returns normally\<close>

text \<open>
  C1, as stated, asks for a well-formed report at every invocation. On a host whose CPU
  reading raises, the handler returns a dict with the keys \<^verbatim>\<open>status\<close>,
  \<^verbatim>\<open>error\<close> and \<^verbatim>\<open>timestamp\<close>: it has no \<^verbatim>\<open>error_message\<close>, so it is
  not a report of the specification's data model. The report of a host whose readings
  succeed is one.
\<close>

theorem detailed_health_spec_report_counterexample:
  "metrics_error host_cpu_fault =
     Some (Exception ''RuntimeError'' ''host metrics unavailable'') \<and>
   detailed_health host_cpu_fault =
     Inr (PDict
       [(''status'', PStr ''error''),
        (''error'', PStr ''host metrics unavailable''),
        (''timestamp'', PStr ''2024-05-17T09:30:00.000123'')]) \<and>
   \<not> spec_detailed_report (PDict
       [(''status'', PStr ''error''),
        (''error'', PStr ''host metrics unavailable''),
        (''timestamp'', PStr ''2024-05-17T09:30:00.000123'')]) \<and>
   detailed_health host_ok =
     Inr (PDict
       [(''status'', PStr ''ok''),
        (''service'', PStr ''ai-service''),
        (''timestamp'', PStr ''2024-05-17T09:30:00.000123''),
        (''version'', PStr ''1.0.0''),
        (''system'', PDict
           [(''cpu_percent'', PFloat 12.5),
            (''memory_percent'', PFloat 37.5),
            (''memory_available'', PInt 8589934592),
            (''environment'', PStr ''production'')]),
        (''dependencies'', PDict
           [(''tensorflow'', PStr ''ready''),
            (''mongodb'', PStr ''connected''),
            (''redis'', PStr ''connected'')])]) \<and>
   spec_detailed_report (PDict
       [(''status'', PStr ''ok''),
        (''service'', PStr ''ai-service''),
        (''timestamp'', PStr ''2024-05-17T09:30:00.000123''),
        (''version'', PStr ''1.0.0''),
        (''system'', PDict
           [(''cpu_percent'', PFloat 12.5),
            (''memory_percent'', PFloat 37.5),
            (''memory_available'', PInt 8589934592),
            (''environment'', PStr ''production'')]),
        (''dependencies'', PDict
           [(''tensorflow'', PStr ''ready''),
            (''mongodb'', PStr ''connected''),
            (''redis'', PStr ''connected'')])])"
proof -
  have err: "metrics_error host_cpu_fault =
      Some (Exception ''RuntimeError'' ''host metrics unavailable'')"
    by (simp add: host_cpu_fault_readings)
  have fault: "detailed_health host_cpu_fault =
     Inr (PDict
       [(''status'', PStr ''error''),
        (''error'', PStr ''host metrics unavailable''),
        (''timestamp'', PStr ''2024-05-17T09:30:00.000123'')])"
    by (simp add: detailed_health_failure [OF err] str_def host_cpu_fault_readings)
  have sound: "detailed_health host_ok =
     Inr (PDict
       [(''status'', PStr ''ok''),
        (''service'', PStr ''ai-service''),
        (''timestamp'', PStr ''2024-05-17T09:30:00.000123''),
        (''version'', PStr ''1.0.0''),
        (''system'', PDict
           [(''cpu_percent'', PFloat 12.5),
            (''memory_percent'', PFloat 37.5),
            (''memory_available'', PInt 8589934592),
            (''environment'', PStr ''production'')]),
        (''dependencies'', PDict
           [(''tensorflow'', PStr ''ready''),
            (''mongodb'', PStr ''connected''),
            (''redis'', PStr ''connected'')])])"
    by (simp add: detailed_health_success [OF host_ok_readings(1) host_ok_readings(2)]
        getenv_def host_ok_readings)
  show ?thesis
    unfolding fault sound
    by (simp add: err spec_detailed_report_def is_str_def nonempty_str_def
        nonempty_dict_def is_labels_def)
qed

text \<open>
  C1, amended. Every invocation of the detailed handler returns normally, whether metrics
  collection succeeds or raises an error; no exception leaves the handler. When both
  readings succeed it returns the report with status \<^verbatim>\<open>ok\<close>, the service name, the
  timestamp, the version, the system block holding the two readings and the environment
  name, and the dependency labels. When a reading raises \<open>e\<close> it returns the dict with
  exactly status \<^verbatim>\<open>error\<close>, the text of \<open>e\<close> under the key \<^verbatim>\<open>error\<close>, and
  the timestamp.
\<close>

theorem detailed_health_total:
  "(\<exists>m c. virtual_memory w = Inr m \<and> cpu_percent w = Inr c \<and>
      detailed_health w =
        Inr (PDict
          [(''status'', PStr ''ok''),
           (''service'', PStr ''ai-service''),
           (''timestamp'', PStr (utcnow_isoformat w)),
           (''version'', PStr ''1.0.0''),
           (''system'', PDict
              [(''cpu_percent'', PFloat c),
               (''memory_percent'', PFloat (percent m)),
               (''memory_available'', PInt (available m)),
               (''environment'', PStr (getenv w ''NODE_ENV'' ''production''))]),
           (''dependencies'', PDict
              [(''tensorflow'', PStr ''ready''),
               (''mongodb'', PStr ''connected''),
               (''redis'', PStr ''connected'')])])) \<or>
   (\<exists>e. metrics_error w = Some e \<and>
      detailed_health w =
        Inr (PDict
          [(''status'', PStr ''error''),
           (''error'', PStr (str e)),
           (''timestamp'', PStr (utcnow_isoformat w))]))"
proof (cases w rule: detailed_health_cases)
  case (ok m c)
  from ok(1) ok(2) have "detailed_health w =
        Inr (PDict
          [(''status'', PStr ''ok''),
           (''service'', PStr ''ai-service''),
           (''timestamp'', PStr (utcnow_isoformat w)),
           (''version'', PStr ''1.0.0''),
           (''system'', PDict
              [(''cpu_percent'', PFloat c),
               (''memory_percent'', PFloat (percent m)),
               (''memory_available'', PInt (available m)),
               (''environment'', PStr (getenv w ''NODE_ENV'' ''production''))]),
           (''dependencies'', PDict
              [(''tensorflow'', PStr ''ready''),
               (''mongodb'', PStr ''connected''),
               (''redis'', PStr ''connected'')])])"
    by (rule detailed_health_success)
  with ok(1) ok(2) show ?thesis by blast
next
  case (error e)
  from error have "detailed_health w =
        Inr (PDict
          [(''status'', PStr ''error''),
           (''error'', PStr (str e)),
           (''timestamp'', PStr (utcnow_isoformat w))])"
    by (rule detailed_health_failure)
  with error show ?thesis by blast
qed

theorem detailed_health_total_witness:
  "metrics_error host_memory_fault =
     Some (Exception ''OSError'' ''[Errno 13] Permission denied'') \<and>
   detailed_health host_memory_fault =
     Inr (PDict
       [(''status'', PStr ''error''),
        (''error'', PStr ''[Errno 13] Permission denied''),
        (''timestamp'', PStr ''2024-05-17T09:30:00.000123'')]) \<and>
   \<not> isl (detailed_health host_ok)"
proof -
  have err: "metrics_error host_memory_fault =
      Some (Exception ''OSError'' ''[Errno 13] Permission denied'')"
    by (simp add: host_memory_fault_readings)
  have vm: "virtual_memory host_memory_fault =
      Inl (Exception ''OSError'' ''[Errno 13] Permission denied'')"
    by (simp add: host_memory_fault_readings)
  from detailed_health_total [of host_memory_fault] err vm
  have "detailed_health host_memory_fault =
     Inr (PDict
       [(''status'', PStr ''error''),
        (''error'', PStr ''[Errno 13] Permission denied''),
        (''timestamp'', PStr ''2024-05-17T09:30:00.000123'')])"
    by (auto simp: str_def host_memory_fault_readings)
  moreover from detailed_health_total [of host_ok]
  have "\<not> isl (detailed_health host_ok)"
    by auto
  ultimately show ?thesis using err by simp
qed

text \<open>
  C9. Every value that either handler returns is a dict with a \<^verbatim>\<open>status\<close> key
  whose value is \<^verbatim>\<open>ok\<close> or \<^verbatim>\<open>error\<close> and with a \<^verbatim>\<open>timestamp\<close> key;
  the error branch of the detailed handler has the timestamp too.
\<close>

theorem reports_status_and_timestamp:
  "(\<exists>kvs. health_check w = Inr (PDict kvs) \<and>
      map_of kvs ''status'' = Some (PStr ''ok'') \<and>
      ''timestamp'' \<in> set (keys (PDict kvs))) \<and>
   (\<exists>kvs. detailed_health w = Inr (PDict kvs) \<and>
      (map_of kvs ''status'' = Some (PStr ''ok'') \<or>
       map_of kvs ''status'' = Some (PStr ''error'')) \<and>
      ''timestamp'' \<in> set (keys (PDict kvs)))"
proof (cases w rule: detailed_health_cases)
  case (ok m c)
  then show ?thesis
    by (simp add: detailed_health_success health_check_def)
next
  case (error e)
  then show ?thesis
    by (simp add: detailed_health_failure health_check_def)
qed

theorem reports_status_and_timestamp_witness:
  "metrics_error host_cpu_fault =
     Some (Exception ''RuntimeError'' ''host metrics unavailable'') \<and>
   (\<exists>kvs. detailed_health host_cpu_fault = Inr (PDict kvs) \<and>
      map_of kvs ''status'' = Some (PStr ''error'') \<and>
      ''timestamp'' \<in> set (keys (PDict kvs)))"
proof -
  have err: "metrics_error host_cpu_fault =
      Some (Exception ''RuntimeError'' ''host metrics unavailable'')"
    by (simp add: host_cpu_fault_readings)
  have "report_field (detailed_health host_cpu_fault) ''status'' = Some (PStr ''error'')"
    by (simp add: detailed_health_failure [OF err] report_field_def)
  with reports_status_and_timestamp [of host_cpu_fault] err show ?thesis
    by (auto simp: report_field_def)
qed

subsection \<open>The detailed handler when metrics collection succeeds\<close>

text \<open>
  C5. When metrics collection succeeds, the report has status \<^verbatim>\<open>ok\<close> and its
  dependencies block is exactly the literal that maps \<^verbatim>\<open>tensorflow\<close> to
  \<^verbatim>\<open>ready\<close>, \<^verbatim>\<open>mongodb\<close> to \<^verbatim>\<open>connected\<close> and \<^verbatim>\<open>redis\<close> to
  \<^verbatim>\<open>connected\<close>: no reading of the host enters it.
\<close>

theorem detailed_health_dependencies:
  assumes "metrics_error w = None"
  shows "report_field (detailed_health w) ''status'' = Some (PStr ''ok'') \<and>
     report_field (detailed_health w) ''dependencies'' =
       Some (PDict
         [(''tensorflow'', PStr ''ready''),
          (''mongodb'', PStr ''connected''),
          (''redis'', PStr ''connected'')])"
proof (cases w rule: detailed_health_cases)
  case (ok m c)
  then show ?thesis
    by (simp add: detailed_health_success report_field_def)
next
  case (error e)
  with assms show ?thesis by simp
qed

theorem detailed_health_dependencies_witness:
  "metrics_error host_staging = None \<and>
   report_field (detailed_health host_staging) ''status'' = Some (PStr ''ok'') \<and>
   report_field (detailed_health host_staging) ''dependencies'' =
     Some (PDict
       [(''tensorflow'', PStr ''ready''),
        (''mongodb'', PStr ''connected''),
        (''redis'', PStr ''connected'')])"
proof -
  have ok: "metrics_error host_staging = None"
    by (simp add: metrics_error_def host_staging_readings)
  from detailed_health_dependencies [OF ok] ok show ?thesis by simp
qed

text \<open>
  C6. When metrics collection succeeds, the \<^verbatim>\<open>environment\<close> field of the system
  block is the value of the variable \<^verbatim>\<open>NODE_ENV\<close> when the variable is set
  (\<^verbatim>\<open>staging\<close> when it is set to \<^verbatim>\<open>staging\<close>), and \<^verbatim>\<open>production\<close> when
  it is unset.
\<close>

theorem detailed_health_environment:
  assumes "metrics_error w = None"
  shows "(\<forall>v. environ w ''NODE_ENV'' = Some v \<longrightarrow>
        system_field (detailed_health w) ''environment'' = Some (PStr v)) \<and>
     (environ w ''NODE_ENV'' = None \<longrightarrow>
        system_field (detailed_health w) ''environment'' = Some (PStr ''production''))"
proof (cases w rule: detailed_health_cases)
  case (ok m c)
  then show ?thesis
    by (simp add: detailed_health_success system_field_def report_field_def getenv_def)
next
  case (error e)
  with assms show ?thesis by simp
qed

theorem detailed_health_environment_witness:
  "metrics_error host_staging = None \<and>
   environ host_staging ''NODE_ENV'' = Some ''staging'' \<and>
   system_field (detailed_health host_staging) ''environment'' = Some (PStr ''staging'') \<and>
   metrics_error host_ok = None \<and>
   environ host_ok ''NODE_ENV'' = None \<and>
   system_field (detailed_health host_ok) ''environment'' = Some (PStr ''production'')"
proof -
  have staging: "metrics_error host_staging = None"
    by (simp add: metrics_error_def host_staging_readings)
  have unset: "metrics_error host_ok = None"
    by (simp add: metrics_error_def host_ok_readings)
  from detailed_health_environment [OF staging] detailed_health_environment [OF unset]
    staging unset
  show ?thesis
    by (simp add: host_staging_readings host_ok_readings)
qed

text \<open>
  C7. When metrics collection succeeds and the host reports a CPU percentage and a
  memory percentage between 0 and 100 and a non-negative count of available bytes, the
  report has status \<^verbatim>\<open>ok\<close> and carries these readings: a CPU percentage within
  0 and 100, a memory percentage within 0 and 100, and a non-negative count of
  available bytes.
\<close>

theorem detailed_health_ranges:
  assumes "virtual_memory w = Inr m" and "cpu_percent w = Inr c"
    and "0 \<le> c" and "c \<le> 100"
    and "0 \<le> percent m" and "percent m \<le> 100"
    and "0 \<le> available m"
  shows "report_field (detailed_health w) ''status'' = Some (PStr ''ok'') \<and>
     (\<exists>x. system_field (detailed_health w) ''cpu_percent'' = Some (PFloat x) \<and>
        0 \<le> x \<and> x \<le> 100) \<and>
     (\<exists>x. system_field (detailed_health w) ''memory_percent'' = Some (PFloat x) \<and>
        0 \<le> x \<and> x \<le> 100) \<and>
     (\<exists>n. system_field (detailed_health w) ''memory_available'' = Some (PInt n) \<and>
        0 \<le> n)"
  using assms
  by (simp add: detailed_health_success [of w m c] system_field_def report_field_def)

theorem detailed_health_ranges_witness:
  "virtual_memory host_ok = Inr \<lparr>percent = 37.5, available = 8589934592\<rparr> \<and>
   cpu_percent host_ok = Inr 12.5 \<and>
   (0::real) \<le> 12.5 \<and> (12.5::real) \<le> 100 \<and>
   (0::real) \<le> 37.5 \<and> (37.5::real) \<le> 100 \<and> (0::int) \<le> 8589934592 \<and>
   report_field (detailed_health host_ok) ''status'' = Some (PStr ''ok'') \<and>
   system_field (detailed_health host_ok) ''cpu_percent'' = Some (PFloat 12.5) \<and>
   system_field (detailed_health host_ok) ''memory_percent'' = Some (PFloat 37.5) \<and>
   system_field (detailed_health host_ok) ''memory_available'' = Some (PInt 8589934592)"
proof -
  have vm: "virtual_memory host_ok = Inr \<lparr>percent = 37.5, available = 8589934592\<rparr>"
    and cp: "cpu_percent host_ok = Inr 12.5"
    by (simp_all add: host_ok_readings)
  from detailed_health_ranges [OF vm cp] vm cp show ?thesis
    by (simp add: detailed_health_success [OF vm cp] system_field_def report_field_def)
qed

subsection \<open>The detailed handler when metrics collection raises\<close>

text \<open>
  C3, as stated, asks for a field \<^verbatim>\<open>error_message\<close> in the error report. On a
  host whose memory reading raises \<^verbatim>\<open>OSError\<close>, the report has the three keys
  \<^verbatim>\<open>status\<close>, \<^verbatim>\<open>error\<close> and \<^verbatim>\<open>timestamp\<close>, and none named
  \<^verbatim>\<open>error_message\<close>.
\<close>

theorem detailed_health_error_message_counterexample:
  "metrics_error host_memory_fault =
     Some (Exception ''OSError'' ''[Errno 13] Permission denied'') \<and>
   detailed_health host_memory_fault =
     Inr (PDict
       [(''status'', PStr ''error''),
        (''error'', PStr ''[Errno 13] Permission denied''),
        (''timestamp'', PStr ''2024-05-17T09:30:00.000123'')]) \<and>
   report_field (detailed_health host_memory_fault) ''error_message'' = None"
proof -
  have err: "metrics_error host_memory_fault =
      Some (Exception ''OSError'' ''[Errno 13] Permission denied'')"
    by (simp add: host_memory_fault_readings)
  show ?thesis
    by (simp add: detailed_health_failure [OF err] report_field_def str_def
        host_memory_fault_readings)
qed

text \<open>
  C3, amended. When metrics collection raises an exception \<open>e\<close>, the report has
  status \<^verbatim>\<open>error\<close>, a field \<^verbatim>\<open>error\<close> that holds the text of \<open>e\<close>, and a
  field \<^verbatim>\<open>timestamp\<close>; it has no field \<^verbatim>\<open>system\<close>, \<^verbatim>\<open>dependencies\<close>,
  \<^verbatim>\<open>service\<close> or \<^verbatim>\<open>version\<close>.
\<close>

theorem detailed_health_error_report:
  assumes "metrics_error w = Some e"
  shows "detailed_health w =
       Inr (PDict
         [(''status'', PStr ''error''),
          (''error'', PStr (str e)),
          (''timestamp'', PStr (utcnow_isoformat w))]) \<and>
     report_field (detailed_health w) ''system'' = None \<and>
     report_field (detailed_health w) ''dependencies'' = None \<and>
     report_field (detailed_health w) ''service'' = None \<and>
     report_field (detailed_health w) ''version'' = None"
  by (simp add: detailed_health_failure [OF assms] report_field_def)

theorem detailed_health_error_report_witness:
  "metrics_error host_cpu_fault =
     Some (Exception ''RuntimeError'' ''host metrics unavailable'') \<and>
   detailed_health host_cpu_fault =
     Inr (PDict
       [(''status'', PStr ''error''),
        (''error'', PStr ''host metrics unavailable''),
        (''timestamp'', PStr ''2024-05-17T09:30:00.000123'')]) \<and>
   report_field (detailed_health host_cpu_fault) ''service'' = None"
proof -
  have err: "metrics_error host_cpu_fault =
      Some (Exception ''RuntimeError'' ''host metrics unavailable'')"
    by (simp add: host_cpu_fault_readings)
  from detailed_health_error_report [OF err] err show ?thesis
    by (simp add: str_def report_field_def host_cpu_fault_readings)
qed

text \<open>
  C4, as stated, asks for a non-empty error text whatever exception is raised. On a host
  whose memory reading raises \<^verbatim>\<open>RuntimeError()\<close>, an exception without a message,
  the handler returns the error report with the empty string as its error text.
\<close>

theorem detailed_health_empty_error_counterexample:
  "metrics_error host_silent_fault = Some (Exception ''RuntimeError'' '''') \<and>
   str (Exception ''RuntimeError'' '''') = '''' \<and>
   detailed_health host_silent_fault =
     Inr (PDict
       [(''status'', PStr ''error''),
        (''error'', PStr ''''),
        (''timestamp'', PStr ''2024-05-17T09:30:00.000123'')])"
proof -
  have err: "metrics_error host_silent_fault = Some (Exception ''RuntimeError'' '''')"
    by (simp add: host_silent_fault_readings)
  show ?thesis
    by (simp add: detailed_health_failure [OF err] str_def host_silent_fault_readings)
qed

text \<open>
  C4, amended. When metrics collection is made to fail with an exception \<open>e\<close>, the
  call returns normally, and the report has status \<^verbatim>\<open>error\<close> and the text of
  \<open>e\<close> as its \<^verbatim>\<open>error\<close> string: a non-empty string exactly when the text of
  \<open>e\<close> is non-empty.
\<close>

theorem detailed_health_error_text:
  assumes "metrics_error w = Some e"
  shows "\<not> isl (detailed_health w) \<and>
     report_field (detailed_health w) ''status'' = Some (PStr ''error'') \<and>
     (\<exists>s. report_field (detailed_health w) ''error'' = Some (PStr s) \<and>
        s = str e \<and> (s \<noteq> [] \<longleftrightarrow> str e \<noteq> []))"
  by (simp add: detailed_health_failure [OF assms] report_field_def)

theorem detailed_health_error_text_witness:
  "metrics_error host_memory_fault =
     Some (Exception ''OSError'' ''[Errno 13] Permission denied'') \<and>
   \<not> isl (detailed_health host_memory_fault) \<and>
   report_field (detailed_health host_memory_fault) ''status'' = Some (PStr ''error'') \<and>
   report_field (detailed_health host_memory_fault) ''error'' =
     Some (PStr ''[Errno 13] Permission denied'')"
proof -
  have err: "metrics_error host_memory_fault =
      Some (Exception ''OSError'' ''[Errno 13] Permission denied'')"
    by (simp add: host_memory_fault_readings)
  from detailed_health_error_text [OF err] err show ?thesis
    by (simp add: str_def)
qed

subsection \<open>The transport status\<close>

text \<open>
  C8. A request to either health route is answered with status 200: neither handler
  raises, the basic route answers with the basic report, and the detailed route answers
  with the detailed report in its ok and in its error variant alike. A failure of
  metrics collection shows in the \<^verbatim>\<open>status\<close> field of the body only.
\<close>

theorem health_routes_status_200:
  "\<not> isl (health_check w) \<and> \<not> isl (detailed_health w) \<and>
   (\<exists>r. health_check w = Inr r \<and>
      app w ''GET'' ''/health'' = Some \<lparr>status_code = 200, content = r\<rparr>) \<and>
   (\<exists>r. detailed_health w = Inr r \<and>
      app w ''GET'' ''/health/detailed'' = Some \<lparr>status_code = 200, content = r\<rparr> \<and>
      lookup r ''status'' =
        Some (PStr (if metrics_error w = None then ''ok'' else ''error'')))"
proof (cases w rule: detailed_health_cases)
  case (ok m c)
  then show ?thesis
    by (simp add: detailed_health_success health_check_def app_def get_route_def)
next
  case (error e)
  then show ?thesis
    by (simp add: detailed_health_failure health_check_def app_def get_route_def)
qed

theorem health_routes_status_200_witness:
  "metrics_error host_silent_fault = Some (Exception ''RuntimeError'' '''') \<and>
   app host_silent_fault ''GET'' ''/health/detailed'' =
     Some \<lparr>status_code = 200,
       content = PDict
         [(''status'', PStr ''error''),
          (''error'', PStr ''''),
          (''timestamp'', PStr ''2024-05-17T09:30:00.000123'')]\<rparr> \<and>
   app host_silent_fault ''GET'' ''/health'' =
     Some \<lparr>status_code = 200,
       content = PDict
         [(''status'', PStr ''ok''),
          (''service'', PStr ''ai-service''),
          (''timestamp'', PStr ''2024-05-17T09:30:00.000123''),
          (''version'', PStr ''1.0.0'')]\<rparr>"
proof -
  have err: "metrics_error host_silent_fault = Some (Exception ''RuntimeError'' '''')"
    by (simp add: host_silent_fault_readings)
  from health_routes_status_200 [of host_silent_fault] err show ?thesis
    by (simp add: detailed_health_failure [OF err] health_check_def str_def
        host_silent_fault_readings)
qed

end
